theory Spec2Isabelle
  imports Main "HOL-Library.Word" "HOL-Library.Signed_Division"
begin

unbundle bit_operations_syntax

section \<open>Go values\<close>

text \<open>
  The module is \<^verbatim>\<open>modules/wifi_recon.go\<close>. Go's \<^verbatim>\<open>int\<close> is taken at its 64-bit
  width: addition and subtraction wrap around, \<^verbatim>\<open>/\<close> truncates towards zero. A
  \<^verbatim>\<open>[]byte\<close> (and so a \<^verbatim>\<open>net.HardwareAddr\<close>) is a list of bytes; a nil slice and
  an empty slice are both the empty list, as \<^verbatim>\<open>len\<close> and \<^verbatim>\<open>bytes.Compare\<close> see them.
\<close>

type_synonym go_int = "64 word"
type_synonym bytes = "8 word list"

text \<open>An \<^verbatim>\<open>error\<close> value: the session's sentinel, or one made from a message.\<close>

datatype error = ErrAlreadyStarted | Error string

text \<open>A call either returns or stops the goroutine with a nil-pointer panic.\<close>

datatype 'a go = Return 'a | Panic

text \<open>Go's integer quotient \<^verbatim>\<open>a / b\<close> on \<^verbatim>\<open>int\<close> (the divisor is never zero here).\<close>

definition go_quo :: "go_int \<Rightarrow> go_int \<Rightarrow> go_int" where
  "go_quo a b = word_of_int (sint a sdiv sint b)"

section \<open>Channel computation\<close>

text \<open>\<^verbatim>\<open>func mhz2chan(freq int) int\<close>, lines 156-162.\<close>

definition mhz2chan :: "go_int \<Rightarrow> go_int" where
  "mhz2chan freq = (if freq \<le>s 2484 then go_quo (freq - 2412) 5 + 1 else 0)"

text \<open>
  The channel function in the words of the specification (4.7), over the mathematical
  integers, with the truncating integer division of the implementation language.
\<close>

definition channel_spec :: "int \<Rightarrow> int" where
  "channel_spec freq = (if freq \<le> 2484 then (freq - 2412) sdiv 5 + 1 else 0)"

section \<open>Decoded frames\<close>

text \<open>
  A \<^verbatim>\<open>gopacket.Packet\<close> as this module reads it: \<^verbatim>\<open>packet.Layer(t)\<close> for the three
  layer types it asks for (nil when the layer is missing) and \<^verbatim>\<open>packet.Data()\<close>.
  The fields are those of gopacket's layer structs that the module touches.
\<close>

record RadioTap =
  ChannelFrequency :: "16 word"

record Dot11InformationElement =
  ID :: "8 word"
  Info :: bytes

record Dot11 =
  Type :: "8 word"
  Flags :: "8 word"
  Address1 :: bytes
  Address2 :: bytes
  Address3 :: bytes
  Address4 :: bytes

record Packet =
  LayerTypeRadioTap :: "RadioTap option"
  LayerTypeDot11InformationElement :: "Dot11InformationElement option"
  LayerTypeDot11 :: "Dot11 option"
  Data :: bytes

text \<open>The constants and accessors of gopacket's \<^verbatim>\<open>layers\<close> package that are used.\<close>

definition Dot11InformationElementIDSSID :: "8 word" where
  "Dot11InformationElementIDSSID = 0"

definition Dot11TypeData :: "8 word" where
  "Dot11TypeData = 2"

definition Dot11TypeMgmtDeauthentication :: "8 word" where
  "Dot11TypeMgmtDeauthentication = 48"

definition Dot11ReasonClass2FromNonAuth :: "16 word" where
  "Dot11ReasonClass2FromNonAuth = 7"

definition MainType :: "8 word \<Rightarrow> 8 word" where
  "MainType t = t AND 3"

definition ToDS :: "8 word \<Rightarrow> bool" where
  "ToDS f = (f AND 1 = 1)"

definition FromDS :: "8 word \<Rightarrow> bool" where
  "FromDS f = (f AND 2 = 2)"

text \<open>
  Modelled from the spec: \<^verbatim>\<open>network.BroadcastMac\<close> is declared outside the module; the
  specification calls it the broadcast address, the six bytes \<^verbatim>\<open>ff\<close>.
\<close>

definition BroadcastMac :: bytes where
  "BroadcastMac = [255, 255, 255, 255, 255, 255]"

text \<open>\<^verbatim>\<open>net.HardwareAddr.String()\<close>: lower-case hexadecimal pairs joined by colons.\<close>

definition hexdigit :: "nat \<Rightarrow> char" where
  "hexdigit n = ''0123456789abcdef'' ! n"

definition hexbyte :: "8 word \<Rightarrow> string" where
  "hexbyte b = [hexdigit (unat b div 16), hexdigit (unat b mod 16)]"

fun HardwareAddr_String :: "bytes \<Rightarrow> string" where
  "HardwareAddr_String [] = []"
| "HardwareAddr_String [b] = hexbyte b"
| "HardwareAddr_String (b # bs) = hexbyte b @ '':'' @ HardwareAddr_String bs"

text \<open>The conversion \<^verbatim>\<open>string(bs)\<close> of a byte slice.\<close>

definition string_of_bytes :: "bytes \<Rightarrow> string" where
  "string_of_bytes bs = map (\<lambda>b. char_of (unat b)) bs"

section \<open>Traffic statistics\<close>

text \<open>
  \<^verbatim>\<open>WiFiStats\<close> is declared outside the module. A counter per hardware address, read
  by \<^verbatim>\<open>For\<close>, which is 0 for an address never seen.
\<close>

type_synonym WiFiStats = "bytes \<Rightarrow> 64 word"

definition NewWiFiStats :: WiFiStats where
  "NewWiFiStats = (\<lambda>hw. 0)"

definition For :: "WiFiStats \<Rightarrow> bytes \<Rightarrow> 64 word" where
  "For s hw = s hw"

text \<open>An address field that is not there: the zero/empty address of 4.2.\<close>

definition absent :: "bytes \<Rightarrow> bool" where
  "absent hw = list_all (\<lambda>b. b = 0) hw"

text \<open>
  Modelled from the spec: \<^verbatim>\<open>WiFiStats.Collect\<close> is not part of the module. By 4.2 it
  adds \<^verbatim>\<open>nBytes\<close> to the running total for \<^verbatim>\<open>hwAddr\<close>, and is a no-op for the
  zero/empty address.
\<close>

definition CollectStats :: "bytes \<Rightarrow> 64 word \<Rightarrow> WiFiStats \<Rightarrow> WiFiStats" where
  "CollectStats hw nBytes s = (if absent hw then s else s(hw := s hw + nBytes))"

section \<open>The engine and its collaborators\<close>

text \<open>
  What the engine does to the outside, in order: a frame the device accepted, an error
  written to the log, the pause after a transmission, the inactive capture handle being
  obtained and cleaned up, and the capture handle being closed.
\<close>

datatype event =
    Transmitted bytes
  | LogError string error
  | Sleep2ms
  | InactiveHandleOpened
  | InactiveHandleCleanUp
  | HandleClosed

text \<open>
  \<^verbatim>\<open>type WiFiRecon struct\<close>, lines 27-35. \<^verbatim>\<open>wifi\<close> and \<^verbatim>\<open>handle\<close> are pointers and
  may be nil; \<^verbatim>\<open>Started\<close> is the running flag of the embedded session module, read
  by \<^verbatim>\<open>Running()\<close>. The registry type \<open>'w\<close> and the device type \<open>'h\<close> are left open.
\<close>

record ('w, 'h) WiFiRecon =
  wifi :: "'w option"
  stats :: WiFiStats
  handle :: "'h option"
  client :: bytes
  accessPoint :: bytes
  Started :: bool
  effects :: "event list"

datatype pcap_timeout = BlockForever | Timeout int

text \<open>
  The collaborators the module only calls: the WiFi registry (\<^verbatim>\<open>AddIfNew\<close>,
  \<^verbatim>\<open>Clear\<close>, the hardware addresses of \<^verbatim>\<open>Stations\<close> in the order \<^verbatim>\<open>range\<close> yields
  them, \<^verbatim>\<open>NewWiFi\<close>), the frame encoder \<^verbatim>\<open>packets.NewDot11Deauth\<close>, the device's
  \<^verbatim>\<open>WritePacketData\<close> (which answers with an error or nil and leaves the device in a
  new state), and the answers of the pcap library to the steps of \<^verbatim>\<open>Configure\<close>.
\<close>

record ('w, 'h) collaborators =
  AddIfNew :: "string \<Rightarrow> string \<Rightarrow> bool \<Rightarrow> go_int \<Rightarrow> 'w \<Rightarrow> 'w"
  Clear :: "'w \<Rightarrow> 'w"
  Stations :: "'w \<Rightarrow> bytes list"
  NewWiFi :: "'w"
  NewDot11Deauth :: "bytes \<Rightarrow> bytes \<Rightarrow> bytes \<Rightarrow> 8 word \<Rightarrow> 16 word \<Rightarrow> 16 word \<Rightarrow> error + bytes"
  WritePacketData :: "'h option \<Rightarrow> bytes \<Rightarrow> error option \<times> 'h option"
  InterfaceName :: string
  NewInactiveHandle :: "string \<Rightarrow> error option"
  SetRFMon :: "bool \<Rightarrow> error option"
  SetSnapLen :: "nat \<Rightarrow> error option"
  SetTimeout :: "pcap_timeout \<Rightarrow> error option"
  Activate :: "error + 'h"

definition emit :: "event \<Rightarrow> ('w, 'h) WiFiRecon \<Rightarrow> ('w, 'h) WiFiRecon" where
  "emit e w = w\<lparr>effects := effects w @ [e]\<rparr>"

text \<open>\<^verbatim>\<open>func NewWiFiRecon\<close>, lines 37-43: the fields of a fresh engine.\<close>

definition NewWiFiRecon :: "('w, 'h) WiFiRecon" where
  "NewWiFiRecon = \<lparr>wifi = None, stats = NewWiFiStats, handle = None, client = [],
     accessPoint = [], Started = False, effects = []\<rparr>"

text \<open>
  The handler of \<^verbatim>\<open>wifi.recon set bs MAC\<close>, lines 78-87; \<open>parsed\<close> is what
  \<^verbatim>\<open>net.ParseMAC(args[0])\<close> returned.
\<close>

definition set_bs ::
  "('w, 'h) collaborators \<Rightarrow> error + bytes \<Rightarrow> ('w, 'h) WiFiRecon \<Rightarrow> error option \<times> ('w, 'h) WiFiRecon" where
  "set_bs E parsed w =
     (let w1 = (case wifi w of None \<Rightarrow> w | Some reg \<Rightarrow> w\<lparr>wifi := Some (Clear E reg)\<rparr>)
      in case parsed of
           Inl err \<Rightarrow> (Some err, w1\<lparr>accessPoint := []\<rparr>)
         | Inr mac \<Rightarrow> (None, w1\<lparr>accessPoint := mac\<rparr>))"

section \<open>Deauthentication\<close>

text \<open>The body of the loop of \<^verbatim>\<open>sendDeauthPacket\<close>, lines 240-258, for one \<^verbatim>\<open>seq\<close>.\<close>

definition deauth_body ::
  "('w, 'h) collaborators \<Rightarrow> bytes \<Rightarrow> bytes \<Rightarrow> 16 word \<Rightarrow> ('w, 'h) WiFiRecon \<Rightarrow> ('w, 'h) WiFiRecon" where
  "deauth_body E ap cl seq w =
     (case NewDot11Deauth E ap cl ap Dot11TypeMgmtDeauthentication Dot11ReasonClass2FromNonAuth seq of
        Inl err \<Rightarrow> emit (LogError ''Could not create deauth packet: %s'' err) w
      | Inr pkt \<Rightarrow>
         (case WritePacketData E (handle w) pkt of
            (Some err, h) \<Rightarrow> emit (LogError ''Could not send deauth packet: %s'' err) (w\<lparr>handle := h\<rparr>)
          | (None, h) \<Rightarrow>
             (let w1 = emit Sleep2ms (emit (Transmitted pkt) (w\<lparr>handle := h\<rparr>))
              in case NewDot11Deauth E cl ap ap Dot11TypeMgmtDeauthentication Dot11ReasonClass2FromNonAuth seq of
                   Inl err \<Rightarrow> emit (LogError ''Could not create deauth packet: %s'' err) w1
                 | Inr pkt2 \<Rightarrow>
                    (case WritePacketData E (handle w1) pkt2 of
                       (Some err, h2) \<Rightarrow>
                         emit (LogError ''Could not send deauth packet: %s'' err) (w1\<lparr>handle := h2\<rparr>)
                     | (None, h2) \<Rightarrow>
                         emit Sleep2ms (emit (Transmitted pkt2) (w1\<lparr>handle := h2\<rparr>))))))"

text \<open>\<^verbatim>\<open>for seq := uint16(0); seq < 64; seq++\<close>, from the current \<^verbatim>\<open>seq\<close> on.\<close>

function deauth_loop ::
  "('w, 'h) collaborators \<Rightarrow> bytes \<Rightarrow> bytes \<Rightarrow> 16 word \<Rightarrow> ('w, 'h) WiFiRecon \<Rightarrow> ('w, 'h) WiFiRecon" where
  "deauth_loop E ap cl seq w =
     (if seq < 64 then deauth_loop E ap cl (seq + 1) (deauth_body E ap cl seq w) else w)"
  by pat_completeness auto
termination
proof (relation "measure (\<lambda>(E, ap, cl, seq, w). 64 - unat seq)")
  show "wf (measure (\<lambda>(E :: ('w, 'h) collaborators, ap :: bytes, cl :: bytes, seq :: 16 word,
      w :: ('w, 'h) WiFiRecon). 64 - unat seq))"
    by simp
next
  fix E :: "('w, 'h) collaborators" and ap cl :: bytes and seq :: "16 word"
    and w :: "('w, 'h) WiFiRecon"
  assume "seq < 64"
  then have "unat seq < 64"
    by (simp add: word_less_nat_alt)
  moreover from this have "unat (seq + 1) = unat seq + 1"
    by (simp add: unat_word_ariths)
  ultimately show "((E, ap, cl, seq + 1, deauth_body E ap cl seq w), (E, ap, cl, seq, w))
      \<in> measure (\<lambda>(E, ap, cl, seq, w). 64 - unat seq)"
    by simp
qed

text \<open>\<^verbatim>\<open>func (w *WiFiRecon) sendDeauthPacket(ap, client)\<close>, lines 238-260.\<close>

definition sendDeauthPacket ::
  "('w, 'h) collaborators \<Rightarrow> bytes \<Rightarrow> bytes \<Rightarrow> ('w, 'h) WiFiRecon \<Rightarrow> ('w, 'h) WiFiRecon" where
  "sendDeauthPacket E ap cl w = deauth_loop E ap cl 0 w"

text \<open>
  \<^verbatim>\<open>func (w *WiFiRecon) startDeauth() error\<close>, lines 262-278. Reading
  \<^verbatim>\<open>w.wifi.Stations\<close> through a nil \<^verbatim>\<open>w.wifi\<close> panics.
\<close>

definition startDeauth ::
  "('w, 'h) collaborators \<Rightarrow> ('w, 'h) WiFiRecon \<Rightarrow> (error option \<times> ('w, 'h) WiFiRecon) go" where
  "startDeauth E w =
     (let isTargetingAP = (length (accessPoint w) > 0) in
      if isTargetingAP then
        (let isTargetingCLI = (length (client w) > 0) in
         if isTargetingCLI then
           Return (None, sendDeauthPacket E (accessPoint w) (client w) w)
         else
           (case wifi w of
              None \<Rightarrow> Panic
            | Some reg \<Rightarrow>
                Return (None, fold (\<lambda>hw w'. sendDeauthPacket E (accessPoint w') hw w') (Stations E reg) w)))
      else Return (Some (Error ''No base station or client set.''), w))"

section \<open>Frame classification\<close>

text \<open>\<^verbatim>\<open>func (w *WiFiRecon) discoverAccessPoints(packet)\<close>, lines 280-312.\<close>

definition discoverAccessPoints ::
  "('w, 'h) collaborators \<Rightarrow> ('w, 'h) WiFiRecon \<Rightarrow> Packet \<Rightarrow> ('w, 'h) WiFiRecon go" where
  "discoverAccessPoints E w packet =
     (case LayerTypeRadioTap packet of
        None \<Rightarrow> Return w
      | Some radiotap \<Rightarrow>
         (case LayerTypeDot11InformationElement packet of
            None \<Rightarrow> Return w
          | Some dot11info \<Rightarrow>
             if ID dot11info \<noteq> Dot11InformationElementIDSSID then Return w
             else
               (case LayerTypeDot11 packet of
                  None \<Rightarrow> Return w
                | Some dot11 \<Rightarrow>
                   (let ssid = string_of_bytes (Info dot11info);
                        bssid = HardwareAddr_String (Address3 dot11);
                        dst = Address1 dot11
                    in if dst = BroadcastMac \<and> length ssid > 0 then
                         (let chan = mhz2chan (ucast (ChannelFrequency radiotap))
                          in case wifi w of
                               None \<Rightarrow> Panic
                             | Some reg \<Rightarrow> Return (w\<lparr>wifi := Some (AddIfNew E ssid bssid True chan reg)\<rparr>))
                       else Return w))))"

text \<open>\<^verbatim>\<open>func (w *WiFiRecon) discoverClients(bs, packet)\<close>, lines 314-343.\<close>

definition discoverClients ::
  "('w, 'h) collaborators \<Rightarrow> ('w, 'h) WiFiRecon \<Rightarrow> bytes \<Rightarrow> Packet \<Rightarrow> ('w, 'h) WiFiRecon go" where
  "discoverClients E w bs packet =
     (case LayerTypeRadioTap packet of
        None \<Rightarrow> Return w
      | Some radiotap \<Rightarrow>
         (case LayerTypeDot11 packet of
            None \<Rightarrow> Return w
          | Some dot11 \<Rightarrow>
             if MainType (Type dot11) \<noteq> Dot11TypeData then Return w
             else
               (let toDS = ToDS (Flags dot11);
                    fromDS = FromDS (Flags dot11)
                in if toDS \<and> \<not> fromDS then
                     (let src = Address2 dot11;
                          bssid = Address1 dot11
                      in if bssid = bs then
                           (let chan = mhz2chan (ucast (ChannelFrequency radiotap))
                            in case wifi w of
                                 None \<Rightarrow> Panic
                               | Some reg \<Rightarrow>
                                   Return (w\<lparr>wifi := Some (AddIfNew E [] (HardwareAddr_String src) False chan reg)\<rparr>))
                         else Return w)
                   else Return w)))"

text \<open>\<^verbatim>\<open>func (w *WiFiRecon) updateStats(packet)\<close>, lines 345-377.\<close>

definition updateStats :: "('w, 'h) WiFiRecon \<Rightarrow> Packet \<Rightarrow> ('w, 'h) WiFiRecon" where
  "updateStats w packet =
     (case LayerTypeRadioTap packet of
        None \<Rightarrow> w
      | Some radiotap \<Rightarrow>
         (case LayerTypeDot11InformationElement packet of
            None \<Rightarrow> w
          | Some dot11info \<Rightarrow>
             if ID dot11info \<noteq> Dot11InformationElementIDSSID then w
             else
               (case LayerTypeDot11 packet of
                  None \<Rightarrow> w
                | Some dot11 \<Rightarrow>
                   (let nbytes = (of_nat (length (Data packet)) :: 64 word)
                    in w\<lparr>stats :=
                         CollectStats (Address4 dot11) nbytes
                           (CollectStats (Address3 dot11) nbytes
                             (CollectStats (Address2 dot11) nbytes
                               (CollectStats (Address1 dot11) nbytes (stats w))))\<rparr>))))"

section \<open>Lifecycle and the capture loop\<close>

text \<open>
  The body of the capture loop in \<^verbatim>\<open>Start\<close>, lines 394-402, for one frame.
\<close>

definition capture_frame ::
  "('w, 'h) collaborators \<Rightarrow> ('w, 'h) WiFiRecon \<Rightarrow> Packet \<Rightarrow> ('w, 'h) WiFiRecon go" where
  "capture_frame E w packet =
     (let w1 = updateStats w packet
      in if length (accessPoint w1) = 0 then discoverAccessPoints E w1 packet
         else discoverClients E w1 (accessPoint w1) packet)"

text \<open>
  The goroutine started by \<^verbatim>\<open>Start\<close>, lines 387-403, over the frames the packet
  source delivers: it leaves the loop when the running flag is down or the source is
  exhausted, and the deferred \<^verbatim>\<open>w.handle.Close()\<close> runs on the way out.
\<close>

fun capture_loop ::
  "('w, 'h) collaborators \<Rightarrow> ('w, 'h) WiFiRecon \<Rightarrow> Packet list \<Rightarrow> ('w, 'h) WiFiRecon go" where
  "capture_loop E w [] = Return (emit HandleClosed w)"
| "capture_loop E w (packet # rest) =
     (if Started w = False then Return (emit HandleClosed w)
      else (case capture_frame E w packet of
              Panic \<Rightarrow> Panic
            | Return w' \<Rightarrow> capture_loop E w' rest))"

text \<open>
  \<^verbatim>\<open>func (w *WiFiRecon) Configure() error\<close>, lines 216-236. Once the inactive handle
  exists, the deferred \<^verbatim>\<open>ihandle.CleanUp()\<close> runs on every way out. A failed
  \<^verbatim>\<open>Activate\<close> hands back a nil handle together with its error, and both are assigned.
\<close>

definition Configure ::
  "('w, 'h) collaborators \<Rightarrow> ('w, 'h) WiFiRecon \<Rightarrow> error option \<times> ('w, 'h) WiFiRecon" where
  "Configure E w =
     (case NewInactiveHandle E (InterfaceName E) of
        Some err \<Rightarrow> (Some err, w)
      | None \<Rightarrow>
         (let w0 = emit InactiveHandleOpened w
          in case SetRFMon E True of
               Some err \<Rightarrow> (Some err, emit InactiveHandleCleanUp w0)
             | None \<Rightarrow>
                (case SetSnapLen E 65536 of
                   Some err \<Rightarrow> (Some err, emit InactiveHandleCleanUp w0)
                 | None \<Rightarrow>
                    (case SetTimeout E BlockForever of
                       Some err \<Rightarrow> (Some err, emit InactiveHandleCleanUp w0)
                     | None \<Rightarrow>
                        (case Activate E of
                           Inl err \<Rightarrow> (Some err, emit InactiveHandleCleanUp (w0\<lparr>handle := None\<rparr>))
                         | Inr h \<Rightarrow>
                            (None, emit InactiveHandleCleanUp
                               (w0\<lparr>handle := Some h, wifi := Some (NewWiFi E)\<rparr>)))))))"

text \<open>
  Modelled from the spec: \<^verbatim>\<open>SetRunning\<close> belongs to the session framework, which is
  not part of the module. By 4.9 it moves the engine to the given running state; the
  loop it launches is \<open>capture_loop\<close>.
\<close>

definition SetRunning :: "bool \<Rightarrow> ('w, 'h) WiFiRecon \<Rightarrow> ('w, 'h) WiFiRecon" where
  "SetRunning running w = w\<lparr>Started := running\<rparr>"

text \<open>\<^verbatim>\<open>func (w *WiFiRecon) Start() error\<close>, lines 379-407.\<close>

definition Start ::
  "('w, 'h) collaborators \<Rightarrow> ('w, 'h) WiFiRecon \<Rightarrow> error option \<times> ('w, 'h) WiFiRecon" where
  "Start E w =
     (if Started w = True then (Some ErrAlreadyStarted, w)
      else (case Configure E w of
              (Some err, w') \<Rightarrow> (Some err, w')
            | (None, w') \<Rightarrow> (None, SetRunning True w')))"

section \<open>Classification in the words of the specification\<close>

text \<open>
  4.5: a frame is an AP beacon or probe response when it has a radio-metadata layer,
  an information-element layer whose identifier is the SSID type, a base 802.11 header,
  the broadcast address as destination and a non-empty SSID.
\<close>

definition ap_beacon :: "Packet \<Rightarrow> bool" where
  "ap_beacon p =
     (case LayerTypeRadioTap p of
        None \<Rightarrow> False
      | Some r \<Rightarrow>
         (case LayerTypeDot11InformationElement p of
            None \<Rightarrow> False
          | Some i \<Rightarrow>
             ID i = Dot11InformationElementIDSSID \<and>
             (case LayerTypeDot11 p of
                None \<Rightarrow> False
              | Some d \<Rightarrow> Address1 d = BroadcastMac \<and> Info i \<noteq> [])))"

text \<open>
  4.6: a frame is client traffic for the filter \<open>bs\<close> when it has a radio-metadata
  layer and a base header, its main type is Data, it goes to the distribution system
  and not from it, and its destination/BSSID field is \<open>bs\<close>.
\<close>

definition client_traffic :: "bytes \<Rightarrow> Packet \<Rightarrow> bool" where
  "client_traffic bs p =
     (case LayerTypeRadioTap p of
        None \<Rightarrow> False
      | Some r \<Rightarrow>
         (case LayerTypeDot11 p of
            None \<Rightarrow> False
          | Some d \<Rightarrow>
             MainType (Type d) = Dot11TypeData \<and> ToDS (Flags d) \<and> \<not> FromDS (Flags d) \<and>
             Address1 d = bs))"

text \<open>The frames whose bytes \<open>updateStats\<close> counts.\<close>

definition counted :: "Packet \<Rightarrow> bool" where
  "counted p =
     (case LayerTypeRadioTap p of
        None \<Rightarrow> False
      | Some r \<Rightarrow>
         (case LayerTypeDot11InformationElement p of
            None \<Rightarrow> False
          | Some i \<Rightarrow>
             ID i = Dot11InformationElementIDSSID \<and> LayerTypeDot11 p \<noteq> None))"

text \<open>A registry that only remembers the calls of \<^verbatim>\<open>AddIfNew\<close> made on it.\<close>

type_synonym call_log = "(string \<times> string \<times> bool \<times> go_int) list"

definition log_AddIfNew :: "string \<Rightarrow> string \<Rightarrow> bool \<Rightarrow> go_int \<Rightarrow> call_log \<Rightarrow> call_log" where
  "log_AddIfNew name hw hasName chan calls = calls @ [(name, hw, hasName, chan)]"

text \<open>
  4.5 and 4.6, on a match: the calls of \<^verbatim>\<open>AddIfNew\<close> that each discovery mode owes
  for a frame, one call when the frame qualifies and none when it does not.
\<close>

definition beacon_calls :: "Packet \<Rightarrow> call_log" where
  "beacon_calls p =
     (case LayerTypeRadioTap p of
        None \<Rightarrow> []
      | Some r \<Rightarrow>
         (case LayerTypeDot11InformationElement p of
            None \<Rightarrow> []
          | Some i \<Rightarrow>
             (case LayerTypeDot11 p of
                None \<Rightarrow> []
              | Some d \<Rightarrow>
                 if ID i = Dot11InformationElementIDSSID \<and> Address1 d = BroadcastMac \<and> Info i \<noteq> []
                 then [(string_of_bytes (Info i), HardwareAddr_String (Address3 d), True,
                        mhz2chan (ucast (ChannelFrequency r)))]
                 else [])))"

definition client_calls :: "bytes \<Rightarrow> Packet \<Rightarrow> call_log" where
  "client_calls bs p =
     (case LayerTypeRadioTap p of
        None \<Rightarrow> []
      | Some r \<Rightarrow>
         (case LayerTypeDot11 p of
            None \<Rightarrow> []
          | Some d \<Rightarrow>
             if MainType (Type d) = Dot11TypeData \<and> ToDS (Flags d) \<and> \<not> FromDS (Flags d) \<and>
                Address1 d = bs
             then [([], HardwareAddr_String (Address2 d), False, mhz2chan (ucast (ChannelFrequency r)))]
             else []))"

section \<open>Example inputs\<close>

text \<open>
  A beacon of the network \<^verbatim>\<open>lab\<close> on 2437 MHz from the access point
  \<^verbatim>\<open>aa:bb:cc:dd:ee:ff\<close>, and a data frame of 100 bytes that the station
  \<^verbatim>\<open>11:22:33:44:55:66\<close> sends through that access point.
\<close>

definition example_ap :: bytes where
  "example_ap = [170, 187, 204, 221, 238, 255]"

definition example_station :: bytes where
  "example_station = [17, 34, 51, 68, 85, 102]"

definition example_radiotap :: RadioTap where
  "example_radiotap = \<lparr>ChannelFrequency = 2437\<rparr>"

definition example_ssid :: Dot11InformationElement where
  "example_ssid = \<lparr>ID = 0, Info = [108, 97, 98]\<rparr>"

definition example_beacon_header :: Dot11 where
  "example_beacon_header = \<lparr>Type = 32, Flags = 0, Address1 = BroadcastMac,
     Address2 = example_ap, Address3 = example_ap, Address4 = []\<rparr>"

definition example_beacon :: Packet where
  "example_beacon = \<lparr>LayerTypeRadioTap = Some example_radiotap,
     LayerTypeDot11InformationElement = Some example_ssid,
     LayerTypeDot11 = Some example_beacon_header, Data = replicate 60 0\<rparr>"

definition example_data_header :: Dot11 where
  "example_data_header = \<lparr>Type = 2, Flags = 1, Address1 = example_ap,
     Address2 = example_station, Address3 = BroadcastMac, Address4 = []\<rparr>"

definition example_data :: Packet where
  "example_data = \<lparr>LayerTypeRadioTap = Some example_radiotap,
     LayerTypeDot11InformationElement = None,
     LayerTypeDot11 = Some example_data_header, Data = replicate 100 0\<rparr>"

text \<open>
  Collaborators that never fail: the registry is the log of its \<^verbatim>\<open>AddIfNew\<close> calls,
  the encoder lays the three addresses and the sequence number side by side, and the
  device counts the frames it was given.
\<close>

definition example_env :: "(call_log, nat) collaborators" where
  "example_env = \<lparr>AddIfNew = log_AddIfNew, Clear = (\<lambda>calls. []),
     Stations = (\<lambda>calls. [example_station]), NewWiFi = [],
     NewDot11Deauth = (\<lambda>a1 a2 a3 t reason seq. Inr (a1 @ a2 @ a3 @ [ucast seq])),
     WritePacketData = (\<lambda>h pkt. (None, map_option Suc h)),
     InterfaceName = ''wlan0'',
     NewInactiveHandle = (\<lambda>name. None), SetRFMon = (\<lambda>on. None),
     SetSnapLen = (\<lambda>n. None), SetTimeout = (\<lambda>t. None), Activate = Inr 0\<rparr>"

text \<open>An engine that has been started once: registry and device are there.\<close>

definition example_engine :: "(call_log, nat) WiFiRecon" where
  "example_engine = NewWiFiRecon\<lparr>wifi := Some [], handle := Some 0\<rparr>"

text \<open>The same engine, running, with the example access point as its filter.\<close>

definition example_filtered :: "(call_log, nat) WiFiRecon" where
  "example_filtered = example_engine\<lparr>accessPoint := example_ap, Started := True\<rparr>"

section \<open>Facts about the channel computation\<close>

lemma sint_in_range:
  "- (2 ^ 63) \<le> k \<Longrightarrow> k < 2 ^ 63 \<Longrightarrow> sint (word_of_int k :: go_int) = k"
  by (simp add: signed_of_int signed_take_bit_int_eq_self)

lemma sint_sub_2412:
  assumes "- (2 ^ 63) + 2412 \<le> sint (f :: go_int)"
  shows "sint (f - 2412) = sint f - 2412"
proof -
  have "sint f < 2 ^ 63" using sint_lt [of f] by simp
  then show ?thesis using assms
    by (simp add: sint_word_diff signed_take_bit_int_eq_self)
qed

lemma sdiv5_char: "(k::int) sdiv 5 = (if 0 \<le> k then k div 5 else - ((- k) div 5))"
  by (auto simp add: signed_divide_int_def sgn_if)

lemma go_quo_plus_1: "go_quo a 5 + 1 = word_of_int (sint a sdiv 5 + 1)"
  by (simp add: go_quo_def)

text \<open>Where the subtraction does not wrap, the code computes the function of 4.7.\<close>

lemma mhz2chan_sint:
  assumes "- (2 ^ 63) + 2412 \<le> sint (f :: go_int)"
  shows "sint (mhz2chan f) = channel_spec (sint f)"
proof (cases "sint f \<le> 2484")
  case True
  define x where "x = sint f - 2412"
  define q where "q = x sdiv 5 + 1"
  have x: "sint (f - 2412) = x" unfolding x_def using assms by (rule sint_sub_2412)
  have lo: "- (2 ^ 63) \<le> x" using assms by (simp add: x_def)
  have hi: "x \<le> 72" using True by (simp add: x_def)
  have q1: "- (2 ^ 63) \<le> q" using lo by (simp add: q_def sdiv5_char) arith
  have q2: "q < 2 ^ 63" using hi lo by (simp add: q_def sdiv5_char) arith
  have "f \<le>s 2484" using True by (simp add: word_sle_eq)
  then have "mhz2chan f = word_of_int q"
    by (simp only: mhz2chan_def go_quo_plus_1 x q_def if_True)
  then have "sint (mhz2chan f) = q" using q1 q2 by (simp only: sint_in_range)
  then show ?thesis using True by (simp add: channel_spec_def q_def x_def)
next
  case False
  then show ?thesis by (simp add: mhz2chan_def channel_spec_def word_sle_eq)
qed

text \<open>Below that, the subtraction wraps around and the result is positive.\<close>

lemma mhz2chan_wraps:
  assumes "sint (f :: go_int) < - (2 ^ 63) + 2412"
  shows "0 < sint (mhz2chan f)"
proof -
  have lo: "- (2 ^ 63) \<le> sint f" using sint_ge [of f] by simp
  define x where "x = sint f - 2412 + 2 ^ 64"
  define q where "q = x sdiv 5 + 1"
  have "f - 2412 = word_of_int (sint f) - 2412" by simp
  also have "\<dots> = word_of_int x" by (simp add: x_def)
  finally have fx: "f - 2412 = word_of_int x" .
  have x1: "2 ^ 63 - 2412 \<le> x" using lo by (simp add: x_def)
  have x2: "x < 2 ^ 63" using assms by (simp add: x_def)
  have x: "sint (f - 2412) = x" unfolding fx using x1 x2 by (simp add: sint_in_range)
  have le: "f \<le>s 2484" using assms by (simp add: word_sle_eq)
  have q1: "0 < q" using x1 by (simp add: q_def sdiv5_char)
  have q2: "q < 2 ^ 63" using x1 x2 by (simp add: q_def sdiv5_char)
  have "mhz2chan f = word_of_int q"
    using le by (simp only: mhz2chan_def go_quo_plus_1 x q_def if_True)
  then have "sint (mhz2chan f) = q" using q1 q2 by (simp add: sint_in_range)
  then show ?thesis using q1 by simp
qed

lemma channel_spec_low: "k \<le> 2402 \<Longrightarrow> channel_spec k \<le> - 1"
  by (simp add: channel_spec_def sdiv5_char)

lemma channel_spec_zero: "2403 \<le> k \<Longrightarrow> k \<le> 2407 \<Longrightarrow> channel_spec k = 0"
  by (simp add: channel_spec_def sdiv5_char)

lemma mhz2chan_radiotap: "sint (mhz2chan (ucast (f :: 16 word))) = channel_spec (uint f)"
proof -
  have "uint f < 2 ^ 16" using uint_lt2p [of f] by simp
  then have b: "uint f < 2 ^ 63" by simp
  have "uint (ucast f :: go_int) = uint f"
    by (rule uint_up_ucast) (simp add: is_up)
  then have "sint (ucast f :: go_int) = signed_take_bit 63 (uint f)"
    by (simp add: sint_uint)
  also have "\<dots> = uint f"
  proof (rule signed_take_bit_int_eq_self)
    have "- (2 ^ 63) \<le> (0 :: int)" by simp
    also have "0 \<le> uint f" by simp
    finally show "- (2 ^ 63) \<le> uint f" .
    show "uint f < 2 ^ 63" by (rule b)
  qed
  finally have u: "sint (ucast f :: go_int) = uint f" .
  have "- (2 ^ 63) + 2412 \<le> (0 :: int)" by simp
  also have "0 \<le> uint f" by simp
  finally have "- (2 ^ 63) + 2412 \<le> sint (ucast f :: go_int)" by (simp only: u)
  then show ?thesis using mhz2chan_sint [of "ucast f"] by (simp only: u)
qed

text \<open>
  C6. For a frequency of at most 2484 the channel function returns
  \<^verbatim>\<open>((freq - 2412) / 5) + 1\<close> in the integer arithmetic of the code, and 0 for every
  frequency above 2484. Wherever the subtraction stays in range, and so for every
  frequency a radiotap header can carry, this is the function of 4.7 over the integers;
  the channels of 2412, 2437, 2462 and 5180 MHz are 1, 6, 11 and 0.
\<close>

theorem mhz2chan_channel:
  "(freq \<le>s 2484 \<longrightarrow> mhz2chan freq = go_quo (freq - 2412) 5 + 1) \<and>
   (\<not> freq \<le>s 2484 \<longrightarrow> mhz2chan freq = 0) \<and>
   (- (2 ^ 63) + 2412 \<le> sint freq \<longrightarrow> sint (mhz2chan freq) = channel_spec (sint freq)) \<and>
   sint (mhz2chan (ucast (f :: 16 word))) = channel_spec (uint f) \<and>
   mhz2chan 2412 = 1 \<and> mhz2chan 2437 = 6 \<and> mhz2chan 2462 = 11 \<and> mhz2chan 5180 = 0"
proof -
  have "mhz2chan 2412 = 1" "mhz2chan 2437 = 6" "mhz2chan 2462 = 11" "mhz2chan 5180 = 0"
    by (simp_all add: mhz2chan_def go_quo_def word_sle_eq signed_divide_int_def)
  then show ?thesis
    using mhz2chan_sint [of freq] mhz2chan_radiotap [of f] by (simp add: mhz2chan_def)
qed

theorem mhz2chan_channel_witness:
  "(2437 :: go_int) \<le>s 2484 \<and> mhz2chan 2437 = go_quo (2437 - 2412) 5 + 1 \<and>
   - (2 ^ 63) + 2412 \<le> sint (2437 :: go_int) \<and> sint (mhz2chan 2437) = channel_spec 2437 \<and>
   \<not> (5180 :: go_int) \<le>s 2484 \<and> mhz2chan 5180 = 0"
  using mhz2chan_channel [of 2437 0] mhz2chan_channel [of 5180 0]
  by (simp add: word_sle_eq)

text \<open>
  C10, as stated, fails at the least \<^verbatim>\<open>int\<close>: it is at most 2402, yet the subtraction
  wraps around and the result is positive.
\<close>

theorem mhz2chan_min_int_counterexample:
  "(- 9223372036854775808 :: go_int) \<le>s 2402 \<and>
   \<not> sint (mhz2chan (- 9223372036854775808)) \<le> - 1"
  by (simp add: mhz2chan_def go_quo_def word_sle_eq signed_divide_int_def)

text \<open>
  C10, amended. For a frequency of at most 2484 the channel function returns
  \<^verbatim>\<open>((freq - 2412) / 5) + 1\<close> without clamping. For every frequency of at most 2402
  from which 2412 can be subtracted without wrap-around the result is at most -1 (2402
  gives -1), and a frequency from 2403 to 2407 gives 0, the unknown-channel value. For
  the 2412 least values of \<^verbatim>\<open>int\<close> the subtraction wraps and the result is positive.
\<close>

theorem mhz2chan_not_clamped:
  "(freq \<le>s 2484 \<longrightarrow> mhz2chan freq = go_quo (freq - 2412) 5 + 1) \<and>
   (- (2 ^ 63) + 2412 \<le> sint freq \<and> sint freq \<le> 2402 \<longrightarrow> sint (mhz2chan freq) \<le> - 1) \<and>
   (2403 \<le> sint freq \<and> sint freq \<le> 2407 \<longrightarrow> mhz2chan freq = 0) \<and>
   (sint freq < - (2 ^ 63) + 2412 \<longrightarrow> 0 < sint (mhz2chan freq)) \<and>
   sint (mhz2chan 2402) = - 1"
proof -
  have a: "- (2 ^ 63) + 2412 \<le> sint freq \<and> sint freq \<le> 2402 \<longrightarrow> sint (mhz2chan freq) \<le> - 1"
    using mhz2chan_sint [of freq] channel_spec_low [of "sint freq"] by simp
  have b: "2403 \<le> sint freq \<and> sint freq \<le> 2407 \<longrightarrow> mhz2chan freq = 0"
  proof
    assume h: "2403 \<le> sint freq \<and> sint freq \<le> 2407"
    then have "sint (mhz2chan freq) = 0"
      using mhz2chan_sint [of freq] channel_spec_zero [of "sint freq"] by simp
    then show "mhz2chan freq = 0" using signed_word_eqI [of "mhz2chan freq" 0] by simp
  qed
  have c: "sint (mhz2chan 2402) = - 1"
    by (simp add: mhz2chan_def go_quo_def word_sle_eq signed_divide_int_def)
  show ?thesis using a b c mhz2chan_wraps [of freq] by (simp add: mhz2chan_def)
qed

theorem mhz2chan_not_clamped_witness:
  "(2400 :: go_int) \<le>s 2484 \<and> mhz2chan 2400 = go_quo (2400 - 2412) 5 + 1 \<and>
   - (2 ^ 63) + 2412 \<le> sint (2400 :: go_int) \<and> sint (2400 :: go_int) \<le> 2402 \<and>
   sint (mhz2chan 2400) \<le> - 1 \<and>
   2403 \<le> sint (2405 :: go_int) \<and> sint (2405 :: go_int) \<le> 2407 \<and> mhz2chan 2405 = 0 \<and>
   sint (- 9223372036854775808 :: go_int) < - (2 ^ 63) + 2412 \<and>
   0 < sint (mhz2chan (- 9223372036854775808))"
  using mhz2chan_not_clamped [of 2400] mhz2chan_not_clamped [of 2405]
    mhz2chan_not_clamped [of "- 9223372036854775808"]
  by (simp add: word_sle_eq go_quo_def signed_divide_int_def)

section \<open>Facts about frame classification\<close>

lemma updateStats_fields:
  "wifi (updateStats w p) = wifi w" "handle (updateStats w p) = handle w"
  "client (updateStats w p) = client w" "accessPoint (updateStats w p) = accessPoint w"
  "Started (updateStats w p) = Started w" "effects (updateStats w p) = effects w"
  by (simp_all add: updateStats_def Let_def split: option.splits)

lemma emit_fields:
  "wifi (emit e w) = wifi w" "handle (emit e w) = handle w" "stats (emit e w) = stats w"
  "client (emit e w) = client w" "accessPoint (emit e w) = accessPoint w"
  "Started (emit e w) = Started w" "effects (emit e w) = effects w @ [e]"
  by (simp_all add: emit_def)

lemma discoverAccessPoints_fields:
  assumes "discoverAccessPoints E w p = Return w'"
  shows "stats w' = stats w \<and> handle w' = handle w \<and> client w' = client w \<and>
    accessPoint w' = accessPoint w \<and> Started w' = Started w \<and> effects w' = effects w \<and>
    (wifi w \<noteq> None \<longrightarrow> wifi w' \<noteq> None)"
  using assms
  by (auto simp add: discoverAccessPoints_def Let_def split: option.splits if_splits)

lemma discoverClients_fields:
  assumes "discoverClients E w bs p = Return w'"
  shows "stats w' = stats w \<and> handle w' = handle w \<and> client w' = client w \<and>
    accessPoint w' = accessPoint w \<and> Started w' = Started w \<and> effects w' = effects w \<and>
    (wifi w \<noteq> None \<longrightarrow> wifi w' \<noteq> None)"
  using assms
  by (auto simp add: discoverClients_def Let_def split: option.splits if_splits)

lemma discoverAccessPoints_no_match:
  "\<not> ap_beacon p \<Longrightarrow> discoverAccessPoints E w p = Return w"
  by (auto simp add: discoverAccessPoints_def ap_beacon_def string_of_bytes_def Let_def
      split: option.splits)

lemma discoverClients_no_match:
  "\<not> client_traffic bs p \<Longrightarrow> discoverClients E w bs p = Return w"
  by (auto simp add: discoverClients_def client_traffic_def Let_def split: option.splits)

lemma wifi_update_neq: "wifi w = Some calls \<Longrightarrow> w\<lparr>wifi := Some (calls @ [c])\<rparr> \<noteq> w"
proof
  assume a: "wifi w = Some calls" and "w\<lparr>wifi := Some (calls @ [c])\<rparr> = w"
  then have "wifi (w\<lparr>wifi := Some (calls @ [c])\<rparr>) = wifi w" by simp
  then show False using a by simp
qed

text \<open>
  C4. AP discovery calls \<^verbatim>\<open>AddIfNew(ssid, address3, true, channel)\<close> exactly for the
  frames with a radiotap layer, an information element of the SSID type, an 802.11
  header, the broadcast address in address1 and a non-empty SSID; every other frame
  makes it return with the engine as it was, without an error.
\<close>

theorem discoverAccessPoints_classifies:
  "(LayerTypeRadioTap p = Some r \<and> LayerTypeDot11InformationElement p = Some i \<and>
    ID i = Dot11InformationElementIDSSID \<and> LayerTypeDot11 p = Some d \<and>
    Address1 d = BroadcastMac \<and> Info i \<noteq> [] \<and> wifi w = Some reg \<longrightarrow>
    discoverAccessPoints E w p =
      Return (w\<lparr>wifi := Some (AddIfNew E (string_of_bytes (Info i)) (HardwareAddr_String (Address3 d))
        True (mhz2chan (ucast (ChannelFrequency r))) reg)\<rparr>)) \<and>
   (\<not> ap_beacon p \<longrightarrow> discoverAccessPoints E w p = Return w) \<and>
   (wifi v = Some calls \<longrightarrow>
    (discoverAccessPoints (F\<lparr>AddIfNew := log_AddIfNew\<rparr>) v p \<noteq> Return v) = ap_beacon p)"
proof (intro conjI impI)
  assume "LayerTypeRadioTap p = Some r \<and> LayerTypeDot11InformationElement p = Some i \<and>
    ID i = Dot11InformationElementIDSSID \<and> LayerTypeDot11 p = Some d \<and>
    Address1 d = BroadcastMac \<and> Info i \<noteq> [] \<and> wifi w = Some reg"
  then show "discoverAccessPoints E w p =
      Return (w\<lparr>wifi := Some (AddIfNew E (string_of_bytes (Info i)) (HardwareAddr_String (Address3 d))
        True (mhz2chan (ucast (ChannelFrequency r))) reg)\<rparr>)"
    by (simp add: discoverAccessPoints_def string_of_bytes_def Let_def)
next
  assume "\<not> ap_beacon p"
  then show "discoverAccessPoints E w p = Return w" by (rule discoverAccessPoints_no_match)
next
  assume v: "wifi v = Some calls"
  show "(discoverAccessPoints (F\<lparr>AddIfNew := log_AddIfNew\<rparr>) v p \<noteq> Return v) = ap_beacon p"
  proof (cases "ap_beacon p")
    case False
    then show ?thesis by (simp add: discoverAccessPoints_no_match)
  next
    case True
    then show ?thesis using v wifi_update_neq [OF v]
      by (auto simp add: discoverAccessPoints_def ap_beacon_def string_of_bytes_def Let_def
          log_AddIfNew_def split: option.splits)
  qed
qed

text \<open>
  C5. With the AP filter \<open>bs\<close>, client discovery calls
  \<^verbatim>\<open>AddIfNew("", source address, false, channel)\<close> exactly for the frames with a
  radiotap layer and an 802.11 header whose main type is Data, with the to-DS flag set
  and the from-DS flag clear, and whose address1 equals \<open>bs\<close>; every other frame leaves
  the engine as it was, without an error.
\<close>

theorem discoverClients_classifies:
  "(LayerTypeRadioTap p = Some r \<and> LayerTypeDot11 p = Some d \<and>
    MainType (Type d) = Dot11TypeData \<and> ToDS (Flags d) \<and> \<not> FromDS (Flags d) \<and>
    Address1 d = bs \<and> wifi w = Some reg \<longrightarrow>
    discoverClients E w bs p =
      Return (w\<lparr>wifi := Some (AddIfNew E [] (HardwareAddr_String (Address2 d)) False
        (mhz2chan (ucast (ChannelFrequency r))) reg)\<rparr>)) \<and>
   (\<not> client_traffic bs p \<longrightarrow> discoverClients E w bs p = Return w) \<and>
   (wifi v = Some calls \<longrightarrow>
    (discoverClients (F\<lparr>AddIfNew := log_AddIfNew\<rparr>) v bs p \<noteq> Return v) = client_traffic bs p)"
proof (intro conjI impI)
  assume "LayerTypeRadioTap p = Some r \<and> LayerTypeDot11 p = Some d \<and>
    MainType (Type d) = Dot11TypeData \<and> ToDS (Flags d) \<and> \<not> FromDS (Flags d) \<and>
    Address1 d = bs \<and> wifi w = Some reg"
  then show "discoverClients E w bs p =
      Return (w\<lparr>wifi := Some (AddIfNew E [] (HardwareAddr_String (Address2 d)) False
        (mhz2chan (ucast (ChannelFrequency r))) reg)\<rparr>)"
    by (simp add: discoverClients_def Let_def)
next
  assume "\<not> client_traffic bs p"
  then show "discoverClients E w bs p = Return w" by (rule discoverClients_no_match)
next
  assume v: "wifi v = Some calls"
  show "(discoverClients (F\<lparr>AddIfNew := log_AddIfNew\<rparr>) v bs p \<noteq> Return v) = client_traffic bs p"
  proof (cases "client_traffic bs p")
    case False
    then show ?thesis by (simp add: discoverClients_no_match)
  next
    case True
    then show ?thesis using v wifi_update_neq [OF v]
      by (auto simp add: discoverClients_def client_traffic_def Let_def
          log_AddIfNew_def split: option.splits)
  qed
qed


lemma example_ssid_string: "string_of_bytes [108, 97, 98] = ''lab''"
  by code_simp

theorem discoverAccessPoints_classifies_witness:
  "ap_beacon example_beacon \<and>
   discoverAccessPoints example_env example_engine example_beacon =
     Return (example_engine\<lparr>wifi := Some [(''lab'', ''aa:bb:cc:dd:ee:ff'', True, 6)]\<rparr>) \<and>
   discoverAccessPoints example_env example_engine example_beacon \<noteq> Return example_engine \<and>
   \<not> ap_beacon example_data \<and>
   discoverAccessPoints example_env example_engine example_data = Return example_engine"
  using discoverAccessPoints_classifies [where p = example_beacon and r = example_radiotap
      and i = example_ssid and d = example_beacon_header and w = example_engine and reg = "[]"
      and E = example_env and v = example_engine and calls = "[]" and F = example_env]
    discoverAccessPoints_classifies [where p = example_data and w = example_engine
      and E = example_env and v = example_engine and calls = "[]" and F = example_env]
  by (simp add: example_beacon_def example_data_def example_ssid_def example_beacon_header_def
      example_radiotap_def example_env_def example_engine_def example_ap_def
      Dot11InformationElementIDSSID_def NewWiFiRecon_def ap_beacon_def log_AddIfNew_def
      example_ssid_string hexbyte_def hexdigit_def mhz2chan_def go_quo_def word_sle_eq
      signed_divide_int_def BroadcastMac_def)


theorem discoverClients_classifies_witness:
  "client_traffic example_ap example_data \<and>
   discoverClients example_env example_engine example_ap example_data =
     Return (example_engine\<lparr>wifi := Some [([], ''11:22:33:44:55:66'', False, 6)]\<rparr>) \<and>
   discoverClients example_env example_engine example_ap example_data \<noteq> Return example_engine \<and>
   \<not> client_traffic example_ap example_beacon \<and>
   discoverClients example_env example_engine example_ap example_beacon = Return example_engine"
  using discoverClients_classifies [where p = example_data and r = example_radiotap
      and d = example_data_header and bs = example_ap and w = example_engine and reg = "[]"
      and E = example_env and v = example_engine and calls = "[]" and F = example_env]
    discoverClients_classifies [where p = example_beacon and bs = example_ap
      and w = example_engine and E = example_env and v = example_engine and calls = "[]"
      and F = example_env]
  by (simp add: example_beacon_def example_data_def example_data_header_def
      example_beacon_header_def example_radiotap_def example_env_def example_engine_def
      example_ap_def example_station_def Dot11TypeData_def MainType_def ToDS_def FromDS_def
      NewWiFiRecon_def client_traffic_def log_AddIfNew_def hexbyte_def hexdigit_def
      mhz2chan_def go_quo_def word_sle_eq signed_divide_int_def)

section \<open>Facts about the statistics and the capture loop\<close>

lemma For_CollectStats:
  "For (CollectStats a n s) hw = For s hw + (if \<not> absent a \<and> a = hw then n else 0)"
  by (simp add: For_def CollectStats_def)

lemma updateStats_not_counted: "\<not> counted p \<Longrightarrow> updateStats w p = w"
  by (auto simp add: updateStats_def counted_def split: option.splits)

lemma updateStats_counted:
  assumes "LayerTypeRadioTap p = Some r" "LayerTypeDot11InformationElement p = Some i"
    "ID i = Dot11InformationElementIDSSID" "LayerTypeDot11 p = Some d"
  shows "For (stats (updateStats w p)) hw = For (stats w) hw +
    (if absent hw then 0
     else of_nat (count_list [Address1 d, Address2 d, Address3 d, Address4 d] hw) *
          of_nat (length (Data p)))"
  using assms
  by (simp add: updateStats_def Let_def For_CollectStats algebra_simps)

lemma discoverAccessPoints_returns:
  "wifi w = Some reg \<Longrightarrow> \<exists>w'. discoverAccessPoints E w p = Return w'"
  by (simp add: discoverAccessPoints_def Let_def split: option.splits)

lemma discoverClients_returns:
  "wifi w = Some reg \<Longrightarrow> \<exists>w'. discoverClients E w bs p = Return w'"
  by (simp add: discoverClients_def Let_def split: option.splits)

lemma capture_frame_AP:
  "accessPoint w = [] \<Longrightarrow> capture_frame E w p = discoverAccessPoints E (updateStats w p) p"
  by (simp add: capture_frame_def Let_def updateStats_fields)

lemma capture_frame_clients:
  "accessPoint w \<noteq> [] \<Longrightarrow>
    capture_frame E w p = discoverClients E (updateStats w p) (accessPoint w) p"
  by (simp add: capture_frame_def Let_def updateStats_fields)

lemma capture_frame_step:
  assumes "wifi w \<noteq> None"
  shows "\<exists>w'. capture_frame E w p = Return w'"
proof -
  from assms obtain reg where "wifi (updateStats w p) = Some reg"
    by (auto simp add: updateStats_fields)
  then show ?thesis
    using discoverAccessPoints_returns [of "updateStats w p" reg E p]
      discoverClients_returns [of "updateStats w p" reg E "accessPoint w" p]
    by (cases "accessPoint w = []") (simp_all add: capture_frame_AP capture_frame_clients)
qed

lemma capture_frame_Return:
  assumes "capture_frame E w p = Return w'"
  shows "stats w' = stats (updateStats w p)"
proof (cases "accessPoint w = []")
  case True
  then have "discoverAccessPoints E (updateStats w p) p = Return w'"
    using assms by (simp add: capture_frame_AP)
  from discoverAccessPoints_fields [OF this] show ?thesis by simp
next
  case False
  then have "discoverClients E (updateStats w p) (accessPoint w) p = Return w'"
    using assms by (simp add: capture_frame_clients)
  from discoverClients_fields [OF this] show ?thesis by simp
qed

lemma updateStats_wifi_update:
  "updateStats (w\<lparr>wifi := x\<rparr>) p = (updateStats w p)\<lparr>wifi := x\<rparr>"
  by (simp add: updateStats_def Let_def split: option.splits)

lemma foldl_updateStats_wifi_update:
  "foldl updateStats (w\<lparr>wifi := x\<rparr>) ps = (foldl updateStats w ps)\<lparr>wifi := x\<rparr>"
  by (induction ps arbitrary: w) (simp_all add: updateStats_wifi_update)

lemma foldl_updateStats_fields:
  "accessPoint (foldl updateStats w ps) = accessPoint w"
  "Started (foldl updateStats w ps) = Started w"
  by (induction ps arbitrary: w) (simp_all add: updateStats_fields)

lemma wifi_same: "wifi w = Some calls \<Longrightarrow> w\<lparr>wifi := Some calls\<rparr> = w"
  by simp

text \<open>On a registry that records its calls, each routine adds exactly what it owes.\<close>

lemma discoverAccessPoints_log:
  assumes "wifi v = Some calls"
  shows "discoverAccessPoints (F\<lparr>AddIfNew := log_AddIfNew\<rparr>) v p =
    Return (v\<lparr>wifi := Some (calls @ beacon_calls p)\<rparr>)"
  using assms wifi_same [OF assms]
  by (simp add: discoverAccessPoints_def beacon_calls_def log_AddIfNew_def
      string_of_bytes_def Let_def split: option.splits)

lemma discoverClients_log:
  assumes "wifi v = Some calls"
  shows "discoverClients (F\<lparr>AddIfNew := log_AddIfNew\<rparr>) v bs p =
    Return (v\<lparr>wifi := Some (calls @ client_calls bs p)\<rparr>)"
  using assms wifi_same [OF assms]
  by (simp add: discoverClients_def client_calls_def log_AddIfNew_def Let_def
      split: option.splits)

lemma capture_frame_log:
  assumes "wifi v = Some calls"
  shows "capture_frame (F\<lparr>AddIfNew := log_AddIfNew\<rparr>) v p =
    Return ((updateStats v p)\<lparr>wifi := Some (calls @
      (if accessPoint v = [] then beacon_calls p else client_calls (accessPoint v) p))\<rparr>)"
proof -
  have u: "wifi (updateStats v p) = Some calls"
    using assms by (simp add: updateStats_fields)
  show ?thesis
  proof (cases "accessPoint v = []")
    case True
    then show ?thesis
      using discoverAccessPoints_log [OF u, of F p] by (simp add: capture_frame_AP)
  next
    case False
    then show ?thesis
      using discoverClients_log [OF u, of F "accessPoint v" p]
      by (simp add: capture_frame_clients)
  qed
qed

lemma capture_loop_log:
  assumes "wifi v = Some calls" "Started v"
  shows "capture_loop (F\<lparr>AddIfNew := log_AddIfNew\<rparr>) v ps =
    Return (emit HandleClosed ((foldl updateStats v ps)\<lparr>wifi := Some (calls @
      concat (map (\<lambda>p. if accessPoint v = [] then beacon_calls p
                          else client_calls (accessPoint v) p) ps))\<rparr>))"
  using assms
proof (induction ps arbitrary: v calls)
  case Nil
  have e: "v\<lparr>wifi := Some calls\<rparr> = v" by (rule wifi_same [OF Nil.prems(1)])
  show ?case by (simp add: e)
next
  case (Cons p ps)
  define c where "c = (if accessPoint v = [] then beacon_calls p else client_calls (accessPoint v) p)"
  define v1 where "v1 = (updateStats v p)\<lparr>wifi := Some (calls @ c)\<rparr>"
  have f: "capture_frame (F\<lparr>AddIfNew := log_AddIfNew\<rparr>) v p = Return v1"
    unfolding v1_def c_def by (rule capture_frame_log [OF Cons.prems(1)])
  have k: "wifi v1 = Some (calls @ c)" "Started v1" "accessPoint v1 = accessPoint v"
    using Cons.prems by (simp_all add: v1_def updateStats_fields)
  have "capture_loop (F\<lparr>AddIfNew := log_AddIfNew\<rparr>) v (p # ps) =
      capture_loop (F\<lparr>AddIfNew := log_AddIfNew\<rparr>) v1 ps"
    using Cons.prems(2) f by simp
  also have "\<dots> = Return (emit HandleClosed ((foldl updateStats v1 ps)\<lparr>wifi := Some ((calls @ c) @
      concat (map (\<lambda>p. if accessPoint v1 = [] then beacon_calls p
                          else client_calls (accessPoint v1) p) ps))\<rparr>))"
    by (rule Cons.IH [OF k(1) k(2)])
  also have "foldl updateStats v1 ps = (foldl updateStats v (p # ps))\<lparr>wifi := Some (calls @ c)\<rparr>"
    by (simp add: v1_def foldl_updateStats_wifi_update)
  finally show ?case by (simp add: k(3) c_def)
qed

text \<open>
  C1, as stated, fails for a data frame: it carries no information element, so the
  capture loop leaves the counter of its transmitter where it was.
\<close>

theorem updateStats_data_frame_counterexample:
  "LayerTypeDot11 example_data = Some example_data_header \<and>
   Address2 example_data_header = example_station \<and> \<not> absent example_station \<and>
   capture_frame example_env example_engine example_data = Return example_engine \<and>
   For (stats example_engine) example_station \<noteq>
   For (stats example_engine) example_station + of_nat (length (Data example_data))"
  by (simp add: example_data_def example_data_header_def example_station_def absent_def
      capture_frame_def updateStats_def discoverAccessPoints_def example_engine_def
      NewWiFiRecon_def For_def NewWiFiStats_def)

text \<open>
  C1, amended. For every captured frame processed by the capture loop that has a
  radiotap layer, an information element of the SSID type and an 802.11 header, the
  frame's total byte length is added to the traffic statistics under each of the
  frame's four address fields, once for each field that holds the address, absent
  address fields being no-ops; for every other frame the statistics stay as they were.
\<close>

theorem updateStats_counts:
  "(LayerTypeRadioTap p = Some r \<and> LayerTypeDot11InformationElement p = Some i \<and>
    ID i = Dot11InformationElementIDSSID \<and> LayerTypeDot11 p = Some d \<longrightarrow>
    For (stats (updateStats w p)) hw = For (stats w) hw +
      (if absent hw then 0
       else of_nat (count_list [Address1 d, Address2 d, Address3 d, Address4 d] hw) *
            of_nat (length (Data p)))) \<and>
   (\<not> counted p \<longrightarrow> updateStats w p = w) \<and>
   (capture_frame E w p = Return w' \<longrightarrow> stats w' = stats (updateStats w p)) \<and>
   (wifi w \<noteq> None \<longrightarrow> (\<exists>w'. capture_frame E w p = Return w'))"
  using updateStats_counted [of p r i d w hw] updateStats_not_counted [of p w]
    capture_frame_Return [of E w p w'] capture_frame_step [of w E p]
  by blast

theorem updateStats_counts_witness:
  "For (stats (updateStats example_engine example_beacon)) example_ap = 120 \<and>
   For (stats (updateStats example_engine example_beacon)) BroadcastMac = 60 \<and>
   For (stats (updateStats example_engine example_beacon)) [] = 0 \<and>
   \<not> counted example_data \<and> updateStats example_engine example_data = example_engine \<and>
   capture_frame example_env example_engine example_data = Return example_engine \<and>
   stats example_engine = stats (updateStats example_engine example_data) \<and>
   wifi example_engine \<noteq> None \<and>
   (\<exists>w'. capture_frame example_env example_engine example_beacon = Return w')"
proof -
  have c: "capture_frame example_env example_engine example_data = Return example_engine"
    by (simp add: example_data_def capture_frame_def updateStats_def discoverAccessPoints_def
        example_engine_def NewWiFiRecon_def)
  have n: "\<not> counted example_data"
    by (simp add: counted_def example_data_def)
  have k: "wifi example_engine \<noteq> None"
    by (simp add: example_engine_def)
  have l: "LayerTypeRadioTap example_beacon = Some example_radiotap \<and>
    LayerTypeDot11InformationElement example_beacon = Some example_ssid \<and>
    ID example_ssid = Dot11InformationElementIDSSID \<and>
    LayerTypeDot11 example_beacon = Some example_beacon_header"
    by (simp add: example_beacon_def example_ssid_def Dot11InformationElementIDSSID_def)
  have z: "For (stats example_engine) hw = 0" for hw
    by (simp add: example_engine_def NewWiFiRecon_def For_def NewWiFiStats_def)
  have a: "example_ap \<noteq> BroadcastMac" "\<not> absent example_ap" "\<not> absent BroadcastMac" "absent []"
    "length (Data example_beacon) = 60" "[] \<noteq> example_ap" "[] \<noteq> BroadcastMac"
    by (simp_all add: example_ap_def BroadcastMac_def absent_def example_beacon_def)
  note beacon = updateStats_counts [where p = example_beacon and r = example_radiotap
      and i = example_ssid and d = example_beacon_header and w = example_engine
      and E = example_env]
  note data = updateStats_counts [where p = example_data and w = example_engine
      and E = example_env and w' = example_engine]
  have 1: "For (stats (updateStats example_engine example_beacon)) example_ap = 120"
    using beacon [where hw = example_ap] l a by (simp add: z example_beacon_header_def)
  have 2: "For (stats (updateStats example_engine example_beacon)) BroadcastMac = 60"
    using beacon [where hw = BroadcastMac] l a by (simp add: z example_beacon_header_def)
  have 3: "For (stats (updateStats example_engine example_beacon)) [] = 0"
    using beacon [where hw = "[]"] l a by (simp add: z example_beacon_header_def)
  have 4: "updateStats example_engine example_data = example_engine"
    using data n by blast
  have 5: "stats example_engine = stats (updateStats example_engine example_data)"
    using data c by blast
  have 6: "\<exists>w'. capture_frame example_env example_engine example_beacon = Return w'"
    using beacon k by blast
  show ?thesis by (intro conjI 1 2 3 n 4 c 5 k 6)
qed

text \<open>
  C8. For every frame the capture loop updates the statistics first and then runs one
  discovery routine on the result: AP discovery when the AP filter is empty, client
  discovery against the filtered AP when it is not, and never both. On a registry that
  records its calls, a frame leaves the statistics updated and adds the calls of the
  selected mode and no others, for one frame and for every run of the loop.
\<close>

theorem capture_frame_one_mode:
  "(accessPoint w = [] \<longrightarrow>
      capture_frame E w p = discoverAccessPoints E (updateStats w p) p) \<and>
   (accessPoint w \<noteq> [] \<longrightarrow>
      capture_frame E w p = discoverClients E (updateStats w p) (accessPoint w) p) \<and>
   (wifi v = Some calls \<longrightarrow>
      capture_frame (F\<lparr>AddIfNew := log_AddIfNew\<rparr>) v p =
        Return ((updateStats v p)\<lparr>wifi := Some (calls @
          (if accessPoint v = [] then beacon_calls p else client_calls (accessPoint v) p))\<rparr>)) \<and>
   (wifi v = Some calls \<and> Started v \<longrightarrow>
      capture_loop (F\<lparr>AddIfNew := log_AddIfNew\<rparr>) v ps =
        Return (emit HandleClosed ((foldl updateStats v ps)\<lparr>wifi := Some (calls @
          concat (map (\<lambda>p. if accessPoint v = [] then beacon_calls p
                              else client_calls (accessPoint v) p) ps))\<rparr>)))"
  using capture_frame_AP [of w E p] capture_frame_clients [of w E p]
    capture_frame_log [of v calls F p] capture_loop_log [of v calls F ps]
  by blast


theorem capture_frame_one_mode_witness:
  "accessPoint example_engine = [] \<and>
   capture_frame example_env example_engine example_beacon =
     discoverAccessPoints example_env (updateStats example_engine example_beacon) example_beacon \<and>
   capture_frame example_env example_engine example_beacon =
     Return ((updateStats example_engine example_beacon)
       \<lparr>wifi := Some [(''lab'', ''aa:bb:cc:dd:ee:ff'', True, 6)]\<rparr>) \<and>
   accessPoint example_filtered \<noteq> [] \<and>
   capture_frame example_env example_filtered example_beacon =
     discoverClients example_env (updateStats example_filtered example_beacon)
       (accessPoint example_filtered) example_beacon \<and>
   capture_frame example_env example_filtered example_beacon =
     Return ((updateStats example_filtered example_beacon)\<lparr>wifi := Some []\<rparr>) \<and>
   wifi example_filtered = Some [] \<and> Started example_filtered \<and>
   capture_loop example_env example_filtered [example_data, example_beacon] =
     Return (emit HandleClosed ((foldl updateStats example_filtered [example_data, example_beacon])
       \<lparr>wifi := Some [([], ''11:22:33:44:55:66'', False, 6)]\<rparr>))"
proof -
  have env: "example_env\<lparr>AddIfNew := log_AddIfNew\<rparr> = example_env"
    by (simp add: example_env_def)
  have e: "accessPoint example_engine = []" "wifi example_engine = Some []"
    by (simp_all add: example_engine_def NewWiFiRecon_def)
  have f: "accessPoint example_filtered \<noteq> []" "accessPoint example_filtered = example_ap"
    "wifi example_filtered = Some []" "Started example_filtered"
    by (simp_all add: example_filtered_def example_engine_def NewWiFiRecon_def example_ap_def)
  have b: "beacon_calls example_beacon = [(''lab'', ''aa:bb:cc:dd:ee:ff'', True, 6)]"
    by (simp add: beacon_calls_def example_beacon_def example_ssid_def example_beacon_header_def
        example_radiotap_def example_ap_def Dot11InformationElementIDSSID_def
        example_ssid_string hexbyte_def hexdigit_def mhz2chan_def go_quo_def word_sle_eq
        signed_divide_int_def)
  have cb: "client_calls example_ap example_beacon = []"
    by (simp add: client_calls_def example_beacon_def example_beacon_header_def
        MainType_def Dot11TypeData_def)
  have cd: "client_calls example_ap example_data = [([], ''11:22:33:44:55:66'', False, 6)]"
    by (simp add: client_calls_def example_data_def example_data_header_def
        example_radiotap_def example_station_def MainType_def Dot11TypeData_def ToDS_def
        FromDS_def hexbyte_def hexdigit_def mhz2chan_def go_quo_def word_sle_eq
        signed_divide_int_def)
  note ap = capture_frame_one_mode [where E = example_env and w = example_engine
      and p = example_beacon and F = example_env and v = example_engine and calls = "[]"]
  note fl = capture_frame_one_mode [where E = example_env and w = example_filtered
      and p = example_beacon and F = example_env and v = example_filtered and calls = "[]"
      and ps = "[example_data, example_beacon]"]
  have 1: "capture_frame example_env example_engine example_beacon =
     discoverAccessPoints example_env (updateStats example_engine example_beacon) example_beacon"
    using ap e by blast
  from ap have "wifi example_engine = Some [] \<longrightarrow>
      capture_frame (example_env\<lparr>AddIfNew := log_AddIfNew\<rparr>) example_engine example_beacon =
        Return ((updateStats example_engine example_beacon)\<lparr>wifi := Some ([] @
          (if accessPoint example_engine = [] then beacon_calls example_beacon
           else client_calls (accessPoint example_engine) example_beacon))\<rparr>)"
    by blast
  then have 2: "capture_frame example_env example_engine example_beacon =
     Return ((updateStats example_engine example_beacon)
       \<lparr>wifi := Some [(''lab'', ''aa:bb:cc:dd:ee:ff'', True, 6)]\<rparr>)"
    using e by (simp add: env b)
  have 3: "capture_frame example_env example_filtered example_beacon =
     discoverClients example_env (updateStats example_filtered example_beacon)
       (accessPoint example_filtered) example_beacon"
    using fl f(1) by blast
  from fl have "wifi example_filtered = Some [] \<longrightarrow>
      capture_frame (example_env\<lparr>AddIfNew := log_AddIfNew\<rparr>) example_filtered example_beacon =
        Return ((updateStats example_filtered example_beacon)\<lparr>wifi := Some ([] @
          (if accessPoint example_filtered = [] then beacon_calls example_beacon
           else client_calls (accessPoint example_filtered) example_beacon))\<rparr>)"
    by blast
  then have 4: "capture_frame example_env example_filtered example_beacon =
     Return ((updateStats example_filtered example_beacon)\<lparr>wifi := Some []\<rparr>)"
    using f by (simp add: env cb)
  from fl have "wifi example_filtered = Some [] \<and> Started example_filtered \<longrightarrow>
      capture_loop (example_env\<lparr>AddIfNew := log_AddIfNew\<rparr>) example_filtered
        [example_data, example_beacon] =
        Return (emit HandleClosed ((foldl updateStats example_filtered [example_data, example_beacon])
          \<lparr>wifi := Some ([] @
          concat (map (\<lambda>p. if accessPoint example_filtered = [] then beacon_calls p
                              else client_calls (accessPoint example_filtered) p)
            [example_data, example_beacon]))\<rparr>))"
    by blast
  then have 5: "capture_loop example_env example_filtered [example_data, example_beacon] =
     Return (emit HandleClosed ((foldl updateStats example_filtered [example_data, example_beacon])
       \<lparr>wifi := Some [([], ''11:22:33:44:55:66'', False, 6)]\<rparr>))"
    using f by (simp add: env cb cd)
  show ?thesis by (intro conjI e(1) 1 2 f(1) 3 4 f(3) f(4) 5)
qed

end
